theory Spec2Isabelle
  imports Main "HOL-Library.Multiset"
begin

section \<open>JavaScript strings\<close>

text \<open>
  A JavaScript string is modelled as a \<^typ>\<open>string\<close>: a list of code units, each below 256
  (the Latin-1 range U+0000 to U+00FF). On that range \<open>length\<close>, \<open>trim\<close>, \<open>toLowerCase\<close>,
  \<open>split\<close>, \<open>includes\<close> and the regular-expression classes \<open>\s\<close>, \<open>\d\<close>, \<open>[a-zA-Z]\<close> are
  modelled exactly; strings with code units above U+00FF are outside the model.
\<close>

definition code_unit :: "char \<Rightarrow> nat" where
  "code_unit c = of_char c"

text \<open>\<open>\d\<close>: the ASCII digits only.\<close>

definition is_digit :: "char \<Rightarrow> bool" where
  "is_digit c = (48 \<le> code_unit c \<and> code_unit c \<le> 57)"

text \<open>\<open>[a-zA-Z]\<close>.\<close>

definition is_alpha :: "char \<Rightarrow> bool" where
  "is_alpha c = ((65 \<le> code_unit c \<and> code_unit c \<le> 90) \<or> (97 \<le> code_unit c \<and> code_unit c \<le> 122))"

text \<open>
  \<open>\s\<close>, and the characters \<open>String.prototype.trim\<close> strips: the white space and line
  terminators of ECMAScript. Below U+0100 these are TAB, LF, VT, FF, CR, SPACE and the
  no-break space U+00A0.
\<close>

definition is_space :: "char \<Rightarrow> bool" where
  "is_space c = (code_unit c \<in> {9, 10, 11, 12, 13, 32, 160})"

text \<open>
  \<open>toLowerCase\<close> on one code unit: \<open>A\<close> to \<open>Z\<close> and the Latin-1 capitals U+00C0 to U+00DE
  (without the multiplication sign U+00D7) move up by 32; everything else stays.
\<close>

definition toLowerCase_char :: "char \<Rightarrow> char" where
  "toLowerCase_char c =
     (if (65 \<le> code_unit c \<and> code_unit c \<le> 90) \<or>
         (192 \<le> code_unit c \<and> code_unit c \<le> 222 \<and> code_unit c \<noteq> 215)
      then char_of (code_unit c + 32) else c)"

definition toLowerCase :: "string \<Rightarrow> string" where
  "toLowerCase s = map toLowerCase_char s"

definition trim :: "string \<Rightarrow> string" where
  "trim s = rev (dropWhile is_space (rev (dropWhile is_space s)))"

text \<open>\<open>s.split(d)\<close> for a one-character separator: never empty, \<open>"".split(d)\<close> is \<open>[""]\<close>.\<close>

fun split_on :: "char \<Rightarrow> string \<Rightarrow> string list" where
  "split_on d [] = [[]]"
| "split_on d (c # cs) =
     (if c = d then [] # split_on d cs
      else (case split_on d cs of [] \<Rightarrow> [[c]] | w # ws \<Rightarrow> (c # w) # ws))"


subsection \<open>Regular expressions\<close>

text \<open>
  A regular expression is run as a backtracking matcher: applied to the input at the current
  position it returns the list of inputs remaining after each possible match. \<open>test\<close> on a
  pattern anchored with \<open>^\<close> and \<open>$\<close> succeeds when some match starting at the first
  character leaves nothing.
\<close>

type_synonym regex = "string \<Rightarrow> string list"

definition rx_class :: "(char \<Rightarrow> bool) \<Rightarrow> regex" where
  "rx_class P s = (case s of [] \<Rightarrow> [] | c # cs \<Rightarrow> if P c then [cs] else [])"

definition rx_seq :: "regex \<Rightarrow> regex \<Rightarrow> regex" where
  "rx_seq a b s = concat (map b (a s))"

text \<open>\<open>[...]+\<close>, greedy: the longest match first.\<close>

fun rx_plus_class :: "(char \<Rightarrow> bool) \<Rightarrow> regex" where
  "rx_plus_class P [] = []"
| "rx_plus_class P (c # cs) = (if P c then rx_plus_class P cs @ [cs] else [])"

definition rx_test :: "regex \<Rightarrow> string \<Rightarrow> bool" where
  "rx_test r s = ([] \<in> set (r s))"

section \<open>Object literals used as lookup tables\<close>

text \<open>
  \<open>table[key]\<close> on an object literal finds the literal's own properties and, failing that,
  the members every object inherits from \<open>Object.prototype\<close>; those are functions, and
  \<open>__proto__\<close> is the prototype object itself, so all of them are truthy.
\<close>

datatype jsval = JStr string | Inherited string

definition object_prototype_keys :: "string list" where
  "object_prototype_keys =
     [''constructor'', ''__defineGetter__'', ''__defineSetter__'', ''hasOwnProperty'',
      ''__lookupGetter__'', ''__lookupSetter__'', ''isPrototypeOf'', ''propertyIsEnumerable'',
      ''toString'', ''valueOf'', ''__proto__'', ''toLocaleString'']"

definition get_prop :: "(string \<times> string) list \<Rightarrow> string \<Rightarrow> jsval option" where
  "get_prop obj k =
     (case map_of obj k of
        Some v \<Rightarrow> Some (JStr v)
      | None \<Rightarrow> if k \<in> set object_prototype_keys then Some (Inherited k) else None)"

fun truthy :: "jsval option \<Rightarrow> bool" where
  "truthy None = False"
| "truthy (Some (JStr s)) = (s \<noteq> [])"
| "truthy (Some (Inherited k)) = True"

text \<open>
  A value inside a template literal. For an inherited member this is the text the engine
  prints for a built-in function (here as V8 prints it) or for the prototype object.
\<close>

fun template_text :: "jsval \<Rightarrow> string" where
  "template_text (JStr s) = s"
| "template_text (Inherited k) =
     (if k = ''__proto__'' then ''[object Object]''
      else ''function '' @ (if k = ''constructor'' then ''Object'' else k) @ ''() { [native code] }'')"

section \<open>Form validation (AddContactModal)\<close>

datatype js_error = TypeError | Error string

text \<open>\<open>/^[^\s@]+@[^\s@]+\.[a-zA-Z]{2,}$/\<close>\<close>

definition basicRegex :: regex where
  "basicRegex =
     rx_seq (rx_plus_class (\<lambda>c. \<not> is_space c \<and> c \<noteq> CHR ''@''))
    (rx_seq (rx_class (\<lambda>c. c = CHR ''@''))
    (rx_seq (rx_plus_class (\<lambda>c. \<not> is_space c \<and> c \<noteq> CHR ''@''))
    (rx_seq (rx_class (\<lambda>c. c = CHR ''.''))
    (rx_seq (rx_class is_alpha) (rx_plus_class is_alpha)))))"

definition typoDomains :: "(string \<times> string) list" where
  "typoDomains =
     [(''gamil.com'', ''gmail.com''), (''gmial.com'', ''gmail.com''), (''gmai.com'', ''gmail.com''),
      (''yahooo.com'', ''yahoo.com''), (''yaho.com'', ''yahoo.com''), (''hotmial.com'', ''hotmail.com''),
      (''outlok.com'', ''outlook.com''), (''outloo.com'', ''outlook.com'')]"

definition sldTypos :: "(string \<times> string) list" where
  "sldTypos =
     [(''g'', ''gmail''), (''gm'', ''gmail''), (''gma'', ''gmail''), (''gmai'', ''gmail''),
      (''gml'', ''gmail''), (''gmal'', ''gmail'')]"

text \<open>
  \<open>validateEmail\<close>. The destructuring \<open>[local, domainFull] = email.split("@")\<close> leaves
  \<open>domainFull\<close> undefined when there is no \<open>@\<close>, and \<open>domainFull.toLowerCase()\<close> then throws a
  \<open>TypeError\<close>; that branch is kept, and shown unreachable below.
\<close>

definition validateEmail :: "string \<Rightarrow> js_error + bool" where
  "validateEmail email =
     (if email = [] then Inr True
      else if \<not> rx_test basicRegex email then Inr False
      else (case split_on CHR ''@'' email of
          local # domainFull # _ \<Rightarrow>
            if local = [] \<or> length (trim local) < 2 then Inr False
            else
              let parts = split_on CHR ''.'' (toLowerCase domainFull) in
              if length parts < 2 then Inr False
              else
                let tld = parts ! (length parts - 1);
                    sld = parts ! (length parts - 2) in
                if sld = [] \<or> length sld < 2 then Inr False
                else if truthy (get_prop typoDomains (sld @ ''.'' @ tld)) then Inr False
                else if tld = ''com'' \<and> truthy (get_prop sldTypos sld) then Inr False
                else Inr True
        | _ \<Rightarrow> Inl TypeError))"

text \<open>\<open>/^[\d\s\-\+\(\)]+$/\<close>\<close>

definition phoneRegex :: regex where
  "phoneRegex =
     rx_plus_class (\<lambda>c. is_digit c \<or> is_space c \<or> c = CHR ''-'' \<or> c = CHR ''+'' \<or>
                        c = CHR ''('' \<or> c = CHR '')'')"

text \<open>\<open>phone.replace(/\D/g, "")\<close> keeps exactly the digits.\<close>

definition validatePhone :: "string \<Rightarrow> bool" where
  "validatePhone phone =
     (if phone = [] then True
      else rx_test phoneRegex phone \<and> length (filter is_digit phone) \<ge> 10)"

record FormData =
  fd_name :: string
  fd_email :: string
  fd_phone :: string
  fd_avatar :: string

record FormErrors =
  err_name :: "string option"
  err_email :: "string option"
  err_phone :: "string option"

definition commonTypos :: "(string \<times> string) list" where
  "commonTypos =
     [(''gamil.com'', ''gmail.com''), (''gmial.com'', ''gmail.com''), (''gmai.com'', ''gmail.com''),
      (''yahooo.com'', ''yahoo.com''), (''yaho.com'', ''yahoo.com''), (''hotmial.com'', ''hotmail.com''),
      (''outlok.com'', ''outlook.com''), (''outloo.com'', ''outlook.com'')]"

definition name_error :: "string \<Rightarrow> string option" where
  "name_error n =
     (if trim n = [] then Some ''Name is required''
      else if length (trim n) > 100 then Some ''Name must be less than 100 characters''
      else None)"

text \<open>
  The message chosen once \<open>validateEmail\<close> has returned false:
  \<open>domain = email.split('@')[1]?.toLowerCase()\<close>, looked up in \<open>commonTypos\<close>.
\<close>

definition email_message :: "string \<Rightarrow> string" where
  "email_message email =
     (let ps = split_on CHR ''@'' email;
          domain = (case ps of _ # d # _ \<Rightarrow> Some (toLowerCase d) | _ \<Rightarrow> None)
      in case domain of
           None \<Rightarrow> ''Please enter a valid email address''
         | Some d \<Rightarrow>
             if d \<noteq> [] \<and> truthy (get_prop commonTypos d)
             then ''Did you mean '' @ (case ps of [] \<Rightarrow> [] | l # _ \<Rightarrow> l) @ ''@'' @
                  (case get_prop commonTypos d of Some v \<Rightarrow> template_text v | None \<Rightarrow> ''undefined'') @
                  ''?''
             else ''Please enter a valid email address'')"

definition email_error :: "string \<Rightarrow> js_error + string option" where
  "email_error email =
     (if email = [] then Inr None
      else (case validateEmail email of
              Inl e \<Rightarrow> Inl e
            | Inr ok \<Rightarrow> if ok then Inr None else Inr (Some (email_message email))))"

definition phone_error :: "string \<Rightarrow> string option" where
  "phone_error p =
     (if p \<noteq> [] \<and> \<not> validatePhone p then Some ''Please enter a valid phone number'' else None)"

text \<open>
  \<open>validateForm\<close>: the errors it stores with \<open>setErrors\<close>, and its result
  \<open>Object.keys(newErrors).length === 0\<close>.
\<close>

definition validateForm :: "FormData \<Rightarrow> js_error + (FormErrors \<times> bool)" where
  "validateForm fd =
     (case email_error (fd_email fd) of
        Inl e \<Rightarrow> Inl e
      | Inr ee \<Rightarrow>
          let newErrors = \<lparr>err_name = name_error (fd_name fd), err_email = ee,
                           err_phone = phone_error (fd_phone fd)\<rparr>
          in Inr (newErrors,
                  err_name newErrors = None \<and> err_email newErrors = None \<and> err_phone newErrors = None))"

section \<open>Contacts\<close>

text \<open>
  An optional property \<open>email?: string\<close> of an object is in one of three states: the key is
  missing, the key is there with the value \<open>undefined\<close>, or it holds a string. Reading the
  property gives \<open>undefined\<close> in the first two; object spread tells them apart.
\<close>

datatype jsprop = Missing | Undefined | Str string

record Contact =
  c_id :: string
  c_name :: string
  c_email :: jsprop
  c_phone :: jsprop
  c_avatar :: jsprop

text \<open>\<open>Omit<Contact, "id">\<close>\<close>

record ContactFields =
  f_name :: string
  f_email :: jsprop
  f_phone :: jsprop
  f_avatar :: jsprop

text \<open>\<open>s || undefined\<close> as the value of a property.\<close>

definition or_undefined :: "string \<Rightarrow> jsprop" where
  "or_undefined s = (if s = [] then Undefined else Str s)"


subsection \<open>Submitting the form\<close>

datatype callback = OnEdit string ContactFields | OnAdd ContactFields

text \<open>
  \<open>handleSubmit\<close>, for the modal's props \<open>editContact\<close> and \<open>onEdit\<close> (given or not) and the
  current form data: the callback it invokes, or none when \<open>validateForm\<close> is false.
\<close>

definition handleSubmit :: "Contact option \<Rightarrow> bool \<Rightarrow> FormData \<Rightarrow> js_error + callback option" where
  "handleSubmit editContact onEdit formData =
     (case validateForm formData of
        Inl e \<Rightarrow> Inl e
      | Inr (_, ok) \<Rightarrow>
          if ok then
            let contactData = \<lparr>f_name = trim (fd_name formData),
                               f_email = or_undefined (trim (fd_email formData)),
                               f_phone = or_undefined (trim (fd_phone formData)),
                               f_avatar = or_undefined (fd_avatar formData)\<rparr>
            in (case editContact of
                  Some ec \<Rightarrow> if onEdit then Inr (Some (OnEdit (c_id ec) contactData))
                             else Inr (Some (OnAdd contactData))
                | None \<Rightarrow> Inr (Some (OnAdd contactData)))
          else Inr None)"

section \<open>The contact store (lib/api/contacts)\<close>

text \<open>
  The module variable \<open>mockContacts\<close> is the state. Every operation waits for its simulated
  delay and then runs to completion, so each is a function from the state at that moment to
  its outcome (the value it resolves with, or the error it throws) and the state it leaves.
\<close>

type_synonym store = "Contact list"

definition seed :: "string \<Rightarrow> string \<Rightarrow> string \<Rightarrow> string \<Rightarrow> Contact" where
  "seed i n e p = \<lparr>c_id = i, c_name = n, c_email = Str e, c_phone = Str p, c_avatar = Missing\<rparr>"

definition mockContacts :: store where
  "mockContacts =
     [seed ''1'' ''Sarah Johnson'' ''sarah.johnson@example.com'' ''+1 (555) 123-4567'',
      seed ''2'' ''Michael Chen'' ''michael.chen@example.com'' ''+1 (555) 234-5678'',
      seed ''3'' ''Emily Rodriguez'' ''emily.rodriguez@example.com'' ''+1 (555) 345-6789'',
      seed ''4'' ''David Thompson'' ''david.thompson@example.com'' ''+1 (555) 456-7890'',
      seed ''5'' ''Lisa Anderson'' ''lisa.anderson@example.com'' ''+1 (555) 567-8901'',
      seed ''6'' ''James Wilson'' ''james.wilson@example.com'' ''+1 (555) 678-9012'',
      seed ''7'' ''Maria Garcia'' ''maria.garcia@example.com'' ''+1 (555) 789-0123'',
      seed ''8'' ''Robert Martinez'' ''robert.martinez@example.com'' ''+1 (555) 890-1234'',
      seed ''9'' ''Jennifer Lee'' ''jennifer.lee@example.com'' ''+1 (555) 901-2345'',
      seed ''10'' ''Christopher Brown'' ''christopher.brown@example.com'' ''+1 (555) 012-3456'']"





text \<open>\<open>findIndex\<close>, with \<open>None\<close> for \<open>-1\<close>.\<close>

fun findIndex :: "('a \<Rightarrow> bool) \<Rightarrow> 'a list \<Rightarrow> nat option" where
  "findIndex P [] = None"
| "findIndex P (x # xs) = (if P x then Some 0 else map_option Suc (findIndex P xs))"

text \<open>One optional property of \<open>{ ...old, ...updates }\<close>: a missing key copies nothing.\<close>

definition spread_prop :: "jsprop \<Rightarrow> jsprop \<Rightarrow> jsprop" where
  "spread_prop old new = (case new of Missing \<Rightarrow> old | _ \<Rightarrow> new)"

definition spread :: "Contact \<Rightarrow> ContactFields \<Rightarrow> Contact" where
  "spread old updates =
     \<lparr>c_id = c_id old, c_name = f_name updates,
      c_email = spread_prop (c_email old) (f_email updates),
      c_phone = spread_prop (c_phone old) (f_phone updates),
      c_avatar = spread_prop (c_avatar old) (f_avatar updates)\<rparr>"

definition updateContact :: "string \<Rightarrow> ContactFields \<Rightarrow> store \<Rightarrow> (js_error + Contact) \<times> store" where
  "updateContact i updates s =
     (case findIndex (\<lambda>c. c_id c = i) s of
        None \<Rightarrow> (Inl (Error ''Contact not found''), s)
      | Some index \<Rightarrow>
          let updatedContact = spread (s ! index) updates
          in (Inr updatedContact, take index s @ [updatedContact] @ drop (index + 1) s))"

definition deleteContact :: "string \<Rightarrow> store \<Rightarrow> (js_error + unit) \<times> store" where
  "deleteContact i s = (Inr (), filter (\<lambda>c. c_id c \<noteq> i) s)"

section \<open>The displayed list (ContactList)\<close>







section \<open>Notions of the specification\<close>

text \<open>
  The domain of an email address is the text after its first \<open>@\<close> (up to the next one, if
  any); its labels are the parts between dots; the second-level label is the last but one.
\<close>

definition email_domain :: "string \<Rightarrow> string option" where
  "email_domain email = (case split_on CHR ''@'' email of _ # d # _ \<Rightarrow> Some d | _ \<Rightarrow> None)"


text \<open>
  The local part of an email address is the text before its first \<open>@\<close>. An address matches
  the typo table through its second-level and top-level labels when the last two labels of
  its lower-cased domain, joined by a dot, are a key of the table; it matches with its whole
  domain when the lower-cased domain itself is a key.
\<close>

definition local_part :: "string \<Rightarrow> string" where
  "local_part email = (case split_on CHR ''@'' email of [] \<Rightarrow> [] | l # _ \<Rightarrow> l)"

definition matched_typo :: "string \<Rightarrow> string option" where
  "matched_typo email =
     (case email_domain email of
        None \<Rightarrow> None
      | Some d \<Rightarrow>
          let labels = split_on CHR ''.'' (toLowerCase d)
          in if length labels < 2 then None
             else map_of typoDomains
                    (labels ! (length labels - 2) @ ''.'' @ labels ! (length labels - 1)))"

definition whole_domain_typo :: "string \<Rightarrow> string option" where
  "whole_domain_typo email =
     (case email_domain email of None \<Rightarrow> None | Some d \<Rightarrow> map_of typoDomains (toLowerCase d))"

text \<open>
  The characters a phone number may consist of, as the specification lists them (digit, space,
  plus, minus, parentheses) and as \<open>phoneRegex\<close> has them (any white space for the space).
\<close>

definition listed_phone_char :: "char \<Rightarrow> bool" where
  "listed_phone_char c =
     (is_digit c \<or> c = CHR '' '' \<or> c = CHR ''+'' \<or> c = CHR ''-'' \<or> c = CHR ''('' \<or> c = CHR '')'')"

definition phone_char :: "char \<Rightarrow> bool" where
  "phone_char c =
     (is_digit c \<or> is_space c \<or> c = CHR ''+'' \<or> c = CHR ''-'' \<or> c = CHR ''('' \<or> c = CHR '')'')"

definition digit_count :: "string \<Rightarrow> nat" where
  "digit_count s = length (filter is_digit s)"

text \<open>A string is blank when trimming leaves nothing, and trimmed when trimming changes nothing.\<close>

definition blank :: "string \<Rightarrow> bool" where
  "blank s = (trim s = [])"

definition trimmed :: "string \<Rightarrow> bool" where
  "trimmed s = (trim s = s)"

text \<open>
  The contact data a callback carries, and what the form is to guarantee of an optional
  field: that it is absent or a string that is neither blank nor padded with white space.
\<close>

fun payload :: "callback \<Rightarrow> ContactFields" where
  "payload (OnEdit i d) = d"
| "payload (OnAdd d) = d"

definition absent_or_clean :: "jsprop \<Rightarrow> bool" where
  "absent_or_clean p = (case p of Str s \<Rightarrow> \<not> blank s \<and> trimmed s | _ \<Rightarrow> True)"

definition absent_or_nonempty :: "jsprop \<Rightarrow> bool" where
  "absent_or_nonempty p = (case p of Str s \<Rightarrow> s \<noteq> [] | _ \<Rightarrow> True)"

text \<open>
  Reading an optional property: \<open>undefined\<close> (here \<open>None\<close>) unless it holds a string. The
  identifiers in use are those of the records in the collection.
\<close>

definition read_prop :: "jsprop \<Rightarrow> string option" where
  "read_prop p = (case p of Str s \<Rightarrow> Some s | _ \<Rightarrow> None)"

definition ids :: "store \<Rightarrow> string set" where
  "ids s = set (map c_id s)"







text \<open>The checks \<open>validateEmail\<close> makes on the domain, as one condition.\<close>

definition domain_checks :: "string \<Rightarrow> bool" where
  "domain_checks domainFull =
     (let parts = split_on CHR ''.'' (toLowerCase domainFull) in
      2 \<le> length parts \<and>
      (let tld = parts ! (length parts - 1);
           sld = parts ! (length parts - 2) in
       2 \<le> length sld \<and>
       \<not> truthy (get_prop typoDomains (sld @ ''.'' @ tld)) \<and>
       \<not> (tld = ''com'' \<and> truthy (get_prop sldTypos sld))))"

section \<open>Facts about strings and patterns\<close>

lemma code_unit_char_of: "n < 256 \<Longrightarrow> code_unit (char_of n) = n"
  by (simp add: code_unit_def)

lemma toLowerCase_char_eq_iff:
  assumes "\<not> (97 \<le> code_unit d \<and> code_unit d \<le> 122)" "\<not> (224 \<le> code_unit d)"
          "\<not> (65 \<le> code_unit d \<and> code_unit d \<le> 90)" "\<not> (192 \<le> code_unit d)"
  shows "toLowerCase_char c = d \<longleftrightarrow> c = d"
proof
  assume h: "toLowerCase_char c = d"
  show "c = d"
  proof (cases "(65 \<le> code_unit c \<and> code_unit c \<le> 90) \<or>
         (192 \<le> code_unit c \<and> code_unit c \<le> 222 \<and> code_unit c \<noteq> 215)")
    case True
    then have "d = char_of (code_unit c + 32)" using h by (simp add: toLowerCase_char_def)
    moreover have "code_unit c + 32 < 256" using True by auto
    ultimately have "code_unit d = code_unit c + 32" by (simp add: code_unit_char_of)
    with True assms show ?thesis by auto
  next
    case False
    then show ?thesis using h by (auto simp: toLowerCase_char_def split: if_splits)
  qed
next
  assume "c = d"
  then show "toLowerCase_char c = d" using assms by (auto simp: toLowerCase_char_def)
qed

lemma toLowerCase_char_dot [simp]: "toLowerCase_char c = CHR ''.'' \<longleftrightarrow> c = CHR ''.''"
  by (rule toLowerCase_char_eq_iff) (simp_all add: code_unit_def)

lemma split_on_not_Nil [simp]: "split_on d s \<noteq> []"
  by (induction s) (auto split: list.splits)



lemma length_toLowerCase [simp]: "length (toLowerCase s) = length s"
  by (simp add: toLowerCase_def)

lemma toLowerCase_Nil_iff [simp]: "toLowerCase s = [] \<longleftrightarrow> s = []"
  by (simp add: toLowerCase_def)


lemma rx_class_iff: "r \<in> set (rx_class P s) \<longleftrightarrow> (\<exists>c. P c \<and> s = c # r)"
  by (auto simp: rx_class_def split: list.splits)

lemma rx_seq_iff: "r \<in> set (rx_seq a b s) \<longleftrightarrow> (\<exists>m \<in> set (a s). r \<in> set (b m))"
  by (auto simp: rx_seq_def)

lemma rx_plus_class_iff:
  "r \<in> set (rx_plus_class P s) \<longleftrightarrow> (\<exists>u. u \<noteq> [] \<and> s = u @ r \<and> (\<forall>c \<in> set u. P c))"
proof (induction s)
  case Nil
  then show ?case by simp
next
  case (Cons a s)
  show ?case
  proof (cases "P a")
    case False
    then show ?thesis by (auto simp: Cons_eq_append_conv neq_Nil_conv)
  next
    case True
    have "(\<exists>u. u \<noteq> [] \<and> a # s = u @ r \<and> (\<forall>c \<in> set u. P c))
       \<longleftrightarrow> r = s \<or> (\<exists>u. u \<noteq> [] \<and> s = u @ r \<and> (\<forall>c \<in> set u. P c))" (is "?L \<longleftrightarrow> ?R")
    proof
      assume ?L
      then obtain u where u: "u \<noteq> []" "a # s = u @ r" "\<forall>c \<in> set u. P c" by blast
      then obtain v where v: "u = a # v" "s = v @ r" by (cases u) auto
      show ?R
      proof (cases "v = []")
        case True then show ?thesis using v by simp
      next
        case False then show ?thesis using u v by auto
      qed
    next
      assume ?R
      then show ?L
      proof
        assume "r = s"
        then have "[a] \<noteq> [] \<and> a # s = [a] @ r \<and> (\<forall>c \<in> set [a]. P c)" using True by simp
        then show ?L by blast
      next
        assume "\<exists>u. u \<noteq> [] \<and> s = u @ r \<and> (\<forall>c \<in> set u. P c)"
        then obtain u where "u \<noteq> []" "s = u @ r" "\<forall>c \<in> set u. P c" by blast
        then have "a # u \<noteq> [] \<and> a # s = (a # u) @ r \<and> (\<forall>c \<in> set (a # u). P c)" using True by simp
        then show ?L by blast
      qed
    qed
    then show ?thesis using True Cons.IH by auto
  qed
qed

lemma rx_test_plus_class: "rx_test (rx_plus_class P) s \<longleftrightarrow> s \<noteq> [] \<and> (\<forall>c \<in> set s. P c)"
  by (auto simp: rx_test_def rx_plus_class_iff)

lemma rx_seq_plus:
  "r \<in> set (rx_seq (rx_plus_class P) b s) \<longleftrightarrow>
     (\<exists>u m. u \<noteq> [] \<and> s = u @ m \<and> (\<forall>c \<in> set u. P c) \<and> r \<in> set (b m))" (is "?L \<longleftrightarrow> ?R")
proof
  assume ?L
  then obtain m where m: "m \<in> set (rx_plus_class P s)" "r \<in> set (b m)"
    unfolding rx_seq_iff by (elim bexE)
  from m(1) obtain u where "u \<noteq> []" "s = u @ m" "\<forall>c \<in> set u. P c"
    unfolding rx_plus_class_iff by (elim exE conjE)
  with m(2) have "u \<noteq> [] \<and> s = u @ m \<and> (\<forall>c \<in> set u. P c) \<and> r \<in> set (b m)" by simp
  then show ?R by (intro exI)
next
  assume ?R
  then obtain u m where h: "u \<noteq> []" "s = u @ m" "\<forall>c \<in> set u. P c" "r \<in> set (b m)"
    by (elim exE conjE)
  have "u \<noteq> [] \<and> s = u @ m \<and> (\<forall>c \<in> set u. P c)" using h by simp
  then have "m \<in> set (rx_plus_class P s)" unfolding rx_plus_class_iff by (intro exI)
  with h(4) show ?L unfolding rx_seq_iff by (intro bexI)
qed

lemma rx_seq_class:
  "r \<in> set (rx_seq (rx_class P) b s) \<longleftrightarrow> (\<exists>c m. P c \<and> s = c # m \<and> r \<in> set (b m))"
  by (auto simp: rx_seq_iff rx_class_iff)

lemma rx_plus_class_Nil: "[] \<in> set (rx_plus_class P s) \<longleftrightarrow> s \<noteq> [] \<and> (\<forall>c \<in> set s. P c)"
  by (auto simp: rx_plus_class_iff)

lemma basicRegex_unfold:
  "rx_test basicRegex e \<longleftrightarrow>
     (\<exists>l r1. l \<noteq> [] \<and> e = l @ r1 \<and> (\<forall>c \<in> set l. \<not> is_space c \<and> c \<noteq> CHR ''@'') \<and>
      (\<exists>c1 r2. c1 = CHR ''@'' \<and> r1 = c1 # r2 \<and>
      (\<exists>x r3. x \<noteq> [] \<and> r2 = x @ r3 \<and> (\<forall>c \<in> set x. \<not> is_space c \<and> c \<noteq> CHR ''@'') \<and>
      (\<exists>c2 r4. c2 = CHR ''.'' \<and> r3 = c2 # r4 \<and>
      (\<exists>a r5. is_alpha a \<and> r4 = a # r5 \<and> r5 \<noteq> [] \<and> (\<forall>c \<in> set r5. is_alpha c))))))"
  unfolding rx_test_def basicRegex_def
  by (simp only: rx_seq_plus rx_seq_class rx_plus_class_Nil)

lemma basicRegex_iff:
  "rx_test basicRegex e \<longleftrightarrow>
     (\<exists>l x t. e = l @ ''@'' @ x @ ''.'' @ t \<and>
        l \<noteq> [] \<and> (\<forall>c \<in> set l. \<not> is_space c \<and> c \<noteq> CHR ''@'') \<and>
        x \<noteq> [] \<and> (\<forall>c \<in> set x. \<not> is_space c \<and> c \<noteq> CHR ''@'') \<and>
        2 \<le> length t \<and> (\<forall>c \<in> set t. is_alpha c))" (is "?L \<longleftrightarrow> ?R")
proof
  assume ?L
  then obtain l r1 c1 r2 x r3 c2 r4 a r5 where
    h: "l \<noteq> []" "e = l @ r1" "\<forall>c \<in> set l. \<not> is_space c \<and> c \<noteq> CHR ''@''"
       "c1 = CHR ''@''" "r1 = c1 # r2"
       "x \<noteq> []" "r2 = x @ r3" "\<forall>c \<in> set x. \<not> is_space c \<and> c \<noteq> CHR ''@''"
       "c2 = CHR ''.''" "r3 = c2 # r4"
       "is_alpha a" "r4 = a # r5" "r5 \<noteq> []" "\<forall>c \<in> set r5. is_alpha c"
    unfolding basicRegex_unfold by (elim exE conjE)
  have "e = l @ ''@'' @ x @ ''.'' @ r4" using h by simp
  moreover have "2 \<le> length r4" using h(12,13) by (cases r5) auto
  moreover have "\<forall>c \<in> set r4. is_alpha c" using h(11,12,14) by simp
  ultimately have "e = l @ ''@'' @ x @ ''.'' @ r4 \<and>
        l \<noteq> [] \<and> (\<forall>c \<in> set l. \<not> is_space c \<and> c \<noteq> CHR ''@'') \<and>
        x \<noteq> [] \<and> (\<forall>c \<in> set x. \<not> is_space c \<and> c \<noteq> CHR ''@'') \<and>
        2 \<le> length r4 \<and> (\<forall>c \<in> set r4. is_alpha c)" using h(1,3,6,8) by simp
  then show ?R by (intro exI)
next
  assume ?R
  then obtain l x t where h: "e = l @ ''@'' @ x @ ''.'' @ t"
        "l \<noteq> []" "\<forall>c \<in> set l. \<not> is_space c \<and> c \<noteq> CHR ''@''"
        "x \<noteq> []" "\<forall>c \<in> set x. \<not> is_space c \<and> c \<noteq> CHR ''@''"
        "2 \<le> length t" "\<forall>c \<in> set t. is_alpha c" by (elim exE conjE)
  from h(6) obtain a u where t: "t = a # u" "u \<noteq> []" by (cases t; cases "tl t") auto
  have "is_alpha a \<and> t = a # u \<and> u \<noteq> [] \<and> (\<forall>c \<in> set u. is_alpha c)"
    using t h(7) by simp
  then have 5: "\<exists>a r5. is_alpha a \<and> t = a # r5 \<and> r5 \<noteq> [] \<and> (\<forall>c \<in> set r5. is_alpha c)"
    by (intro exI)
  have "l \<noteq> [] \<and> e = l @ (CHR ''@'' # x @ CHR ''.'' # t) \<and> (\<forall>c \<in> set l. \<not> is_space c \<and> c \<noteq> CHR ''@'') \<and>
      (\<exists>c1 r2. c1 = CHR ''@'' \<and> (CHR ''@'' # x @ CHR ''.'' # t) = c1 # r2 \<and>
      (\<exists>x r3. x \<noteq> [] \<and> r2 = x @ r3 \<and> (\<forall>c \<in> set x. \<not> is_space c \<and> c \<noteq> CHR ''@'') \<and>
      (\<exists>c2 r4. c2 = CHR ''.'' \<and> r3 = c2 # r4 \<and>
      (\<exists>a r5. is_alpha a \<and> r4 = a # r5 \<and> r5 \<noteq> [] \<and> (\<forall>c \<in> set r5. is_alpha c)))))"
    apply (intro conjI)
       apply (rule h(2))
      apply (simp add: h(1))
     apply (rule h(3))
    apply (rule exI[of _ "CHR ''@''"], rule exI[of _ "x @ CHR ''.'' # t"])
    apply (intro conjI refl)
    apply (rule exI[of _ x], rule exI[of _ "CHR ''.'' # t"])
    apply (intro conjI refl h(4) h(5))
    apply (rule exI[of _ "CHR ''.''"], rule exI[of _ t])
    apply (intro conjI refl 5)
    done
  then show ?L unfolding basicRegex_unfold by (intro exI)
qed

lemma is_alpha_not_space: "is_alpha c \<Longrightarrow> \<not> is_space c"
  by (auto simp: is_alpha_def is_space_def)

lemma basicRegex_no_space:
  assumes "rx_test basicRegex e" shows "\<forall>c \<in> set e. \<not> is_space c"
proof -
  have "\<not> is_space CHR ''@''" "\<not> is_space CHR ''.''" by (simp_all add: is_space_def code_unit_def)
  moreover from assms obtain l x t where "e = l @ ''@'' @ x @ ''.'' @ t"
        "\<forall>c \<in> set l. \<not> is_space c \<and> c \<noteq> CHR ''@''"
        "\<forall>c \<in> set x. \<not> is_space c \<and> c \<noteq> CHR ''@''"
        "\<forall>c \<in> set t. is_alpha c" unfolding basicRegex_iff by (elim exE conjE)
  ultimately show ?thesis by (auto dest: is_alpha_not_space)
qed

lemma split_on_no_sep: "d \<notin> set s \<Longrightarrow> split_on d s = [s]"
  by (induction s) auto

lemma split_on_append_sep: "d \<notin> set u \<Longrightarrow> split_on d (u @ d # v) = u # split_on d v"
  by (induction u) auto

lemma is_alpha_not_at: "is_alpha c \<Longrightarrow> c \<noteq> CHR ''@''"
  by (auto simp: is_alpha_def code_unit_def)

lemma basicRegex_split:
  assumes "rx_test basicRegex e"
  shows "\<exists>l d. split_on CHR ''@'' e = [l, d] \<and> l \<noteq> []"
proof -
  from assms obtain l x t where h: "e = l @ ''@'' @ x @ ''.'' @ t"
        "l \<noteq> []" "\<forall>c \<in> set l. \<not> is_space c \<and> c \<noteq> CHR ''@''"
        "\<forall>c \<in> set x. \<not> is_space c \<and> c \<noteq> CHR ''@''"
        "\<forall>c \<in> set t. is_alpha c" unfolding basicRegex_iff by (elim exE conjE)
  have "CHR ''@'' \<notin> set l" using h(3) by blast
  moreover have "CHR ''@'' \<notin> set (x @ ''.'' @ t)" using h(4,5) by (auto dest: is_alpha_not_at)
  ultimately have "split_on CHR ''@'' e = [l, x @ ''.'' @ t]"
    using h(1) by (simp add: split_on_append_sep split_on_no_sep)
  then show ?thesis using h(2) by blast
qed

section \<open>Facts about validation\<close>

lemma validateEmail_split:
  assumes "split_on CHR ''@'' email = local # domainFull # rest" "email \<noteq> []"
  shows "validateEmail email =
           Inr (rx_test basicRegex email \<and> 2 \<le> length (trim local) \<and> domain_checks domainFull)"
proof -
  have "trim [] = []" by (simp add: trim_def)
  then have "local = [] \<Longrightarrow> \<not> 2 \<le> length (trim local)" by simp
  then show ?thesis using assms
    by (auto simp: validateEmail_def domain_checks_def Let_def)
qed

lemma validateEmail_total: "\<exists>b. validateEmail e = Inr b"
proof (cases "rx_test basicRegex e")
  case False
  then show ?thesis by (auto simp: validateEmail_def)
next
  case True
  then obtain l d where s: "split_on CHR ''@'' e = [l, d]" using basicRegex_split by blast
  show ?thesis
  proof (cases "e = []")
    case True then show ?thesis by (auto simp: validateEmail_def)
  next
    case False then show ?thesis using validateEmail_split[OF s] by simp
  qed
qed

lemma email_error_total: "\<exists>ee. email_error e = Inr ee"
proof -
  obtain b where "validateEmail e = Inr b" using validateEmail_total by blast
  then show ?thesis by (simp add: email_error_def)
qed

lemma validateForm_eq:
  assumes "email_error (fd_email fd) = Inr ee"
  shows "validateForm fd =
     Inr (\<lparr>err_name = name_error (fd_name fd), err_email = ee, err_phone = phone_error (fd_phone fd)\<rparr>,
          name_error (fd_name fd) = None \<and> ee = None \<and> phone_error (fd_phone fd) = None)"
  using assms by (simp add: validateForm_def Let_def)

lemma handleSubmit_blocked:
  assumes "email_error (fd_email fd) = Inr ee"
      and "name_error (fd_name fd) \<noteq> None \<or> ee \<noteq> None \<or> phone_error (fd_phone fd) \<noteq> None"
  shows "handleSubmit ec oe fd = Inr None"
  using assms(2) by (auto simp: handleSubmit_def validateForm_eq[OF assms(1)])


lemma commonTypos_eq: "commonTypos = typoDomains"
  by (simp add: commonTypos_def typoDomains_def)

lemma typoDomains_value: "map_of typoDomains k = Some v \<Longrightarrow> v \<noteq> []"
  by (drule map_of_SomeD) (auto simp: typoDomains_def)

lemma typoDomains_key_labels:
  assumes "map_of typoDomains k = Some v"
  shows "\<exists>sld tld. split_on CHR ''.'' k = [sld, tld] \<and> k = sld @ ''.'' @ tld"
  using map_of_SomeD[OF assms] by (auto simp: typoDomains_def)

lemma get_prop_typoDomains: "map_of typoDomains k = Some v \<Longrightarrow> get_prop typoDomains k = Some (JStr v)"
  by (simp add: get_prop_def)

lemma matched_typo_rejected:
  assumes "matched_typo email = Some canonical"
  shows "validateEmail email = Inr False"
proof -
  from assms obtain lo d rest where s: "split_on CHR ''@'' email = lo # d # rest"
    by (auto simp: matched_typo_def email_domain_def split: list.splits option.splits)
  then have ne: "email \<noteq> []" by auto
  let ?parts = "split_on CHR ''.'' (toLowerCase d)"
  from assms s have l: "2 \<le> length ?parts"
     "map_of typoDomains (?parts ! (length ?parts - 2) @ ''.'' @ ?parts ! (length ?parts - 1)) = Some canonical"
    by (auto simp: matched_typo_def email_domain_def Let_def split: if_splits)
  have "truthy (get_prop typoDomains (?parts ! (length ?parts - 2) @ ''.'' @ ?parts ! (length ?parts - 1)))"
    using get_prop_typoDomains[OF l(2)] typoDomains_value[OF l(2)] by simp
  then have "\<not> domain_checks d"
    by (simp add: domain_checks_def Let_def)
  then show ?thesis using validateEmail_split[OF s ne] by simp
qed

lemma whole_domain_matched:
  assumes "whole_domain_typo email = Some canonical"
  shows "matched_typo email = Some canonical"
proof -
  from assms obtain d where d: "email_domain email = Some d" "map_of typoDomains (toLowerCase d) = Some canonical"
    by (auto simp: whole_domain_typo_def split: option.splits)
  from typoDomains_key_labels[OF d(2)] obtain sld tld where
    "split_on CHR ''.'' (toLowerCase d) = [sld, tld]" "toLowerCase d = sld @ ''.'' @ tld" by blast
  then show ?thesis using d by (simp add: matched_typo_def)
qed

lemma whole_domain_message:
  assumes "whole_domain_typo email = Some canonical"
  shows "email_message email = ''Did you mean '' @ local_part email @ ''@'' @ canonical @ ''?''"
proof -
  from assms obtain lo d rest where s: "split_on CHR ''@'' email = lo # d # rest"
      and m: "map_of typoDomains (toLowerCase d) = Some canonical"
    by (auto simp: whole_domain_typo_def email_domain_def split: list.splits option.splits)
  have "toLowerCase d \<noteq> []" using typoDomains_key_labels[OF m] by (auto simp: toLowerCase_def)
  then show ?thesis
    using s get_prop_typoDomains[OF m] typoDomains_value[OF m]
    by (simp add: email_message_def local_part_def commonTypos_eq)
qed

lemma name_error_required: "blank n \<Longrightarrow> name_error n = Some ''Name is required''"
  by (simp add: name_error_def blank_def)

lemma name_error_too_long:
  "100 < length (trim n) \<Longrightarrow> name_error n = Some ''Name must be less than 100 characters''"
  by (auto simp: name_error_def)

lemma name_error_invalid:
  assumes "name_error (fd_name fd) = Some m"
  shows "(\<exists>errs. validateForm fd = Inr (errs, False) \<and> err_name errs = Some m) \<and>
         handleSubmit ec oe fd = Inr None"
proof -
  obtain ee where e: "email_error (fd_email fd) = Inr ee" using email_error_total by blast
  show ?thesis using validateForm_eq[OF e] handleSubmit_blocked[OF e, of ec oe] assms by simp
qed

lemma validatePhone_iff:
  "validatePhone p \<longleftrightarrow> p = [] \<or> ((\<forall>c \<in> set p. phone_char c) \<and> 10 \<le> digit_count p)"
  by (auto simp: validatePhone_def phoneRegex_def rx_test_plus_class phone_char_def digit_count_def)

lemma phone_error_iff:
  "phone_error p =
     (if p = [] \<or> ((\<forall>c \<in> set p. phone_char c) \<and> 10 \<le> digit_count p) then None
      else Some ''Please enter a valid phone number'')"
  unfolding phone_error_def validatePhone_iff by auto

lemma phone_error_invalid:
  assumes "phone_error (fd_phone fd) = Some m"
  shows "(\<exists>errs. validateForm fd = Inr (errs, False) \<and> err_phone errs = Some m) \<and>
         handleSubmit ec oe fd = Inr None"
proof -
  obtain ee where e: "email_error (fd_email fd) = Inr ee" using email_error_total by blast
  show ?thesis using validateForm_eq[OF e] handleSubmit_blocked[OF e, of ec oe] assms by simp
qed

lemma last_dropWhile_keep: "dropWhile P xs \<noteq> [] \<Longrightarrow> last (dropWhile P xs) = last xs"
  by (induction xs) (auto split: if_splits)

lemma trim_trim [simp]: "trim (trim s) = trim s"
proof -
  let ?t = "dropWhile is_space s"
  let ?u = "dropWhile is_space (rev ?t)"
  have "dropWhile is_space (rev ?u) = rev ?u"
  proof (cases "?u = []")
    case True then show ?thesis unfolding True by simp
  next
    case False
    then have "last ?u = last (rev ?t)" by (rule last_dropWhile_keep)
    moreover have "?t \<noteq> []"
    proof
      assume a: "?t = []"
      have "?u = []" unfolding a by simp
      with False show False by contradiction
    qed
    ultimately have "last ?u = hd ?t" by (simp add: last_rev)
    moreover have "\<not> is_space (hd ?t)" using \<open>?t \<noteq> []\<close> by (rule hd_dropWhile)
    ultimately show ?thesis using False by (simp add: dropWhile_eq_self_iff hd_rev)
  qed
  then show ?thesis by (simp add: trim_def)
qed

lemma trimmed_trim: "trimmed (trim s)"
  by (simp add: trimmed_def)

lemma blank_trim: "blank (trim s) \<longleftrightarrow> blank s"
  by (simp add: blank_def)

lemma or_undefined_trim_clean: "absent_or_clean (or_undefined (trim s))"
  by (simp add: or_undefined_def absent_or_clean_def blank_def trimmed_def)

lemma name_error_None:
  "name_error n = None \<Longrightarrow> \<not> blank n \<and> length (trim n) \<le> 100"
  by (auto simp: name_error_def blank_def split: if_splits)

lemma handleSubmit_commits:
  assumes "handleSubmit ec oe fd = Inr (Some cb)"
  shows "name_error (fd_name fd) = None \<and> email_error (fd_email fd) = Inr None \<and>
         phone_error (fd_phone fd) = None \<and>
         payload cb = \<lparr>f_name = trim (fd_name fd), f_email = or_undefined (trim (fd_email fd)),
                       f_phone = or_undefined (trim (fd_phone fd)),
                       f_avatar = or_undefined (fd_avatar fd)\<rparr>"
proof -
  obtain ee where e: "email_error (fd_email fd) = Inr ee" using email_error_total by blast
  show ?thesis
    using assms unfolding handleSubmit_def validateForm_eq[OF e]
    by (auto simp: e Let_def split: if_splits option.splits)
qed

lemma findIndex_None_iff: "findIndex P xs = None \<longleftrightarrow> (\<forall>x \<in> set xs. \<not> P x)"
  by (induction xs) auto

lemma findIndex_Some:
  "findIndex P xs = Some k \<Longrightarrow> k < length xs \<and> P (xs ! k) \<and> (\<forall>j < k. \<not> P (xs ! j))"
proof (induction xs arbitrary: k)
  case Nil
  then show ?case by simp
next
  case (Cons x xs)
  show ?case
  proof (cases "P x")
    case True
    with Cons.prems show ?thesis by simp
  next
    case False
    with Cons.prems obtain k' where k': "findIndex P xs = Some k'" "k = Suc k'" by auto
    from Cons.IH[OF k'(1)] False k'(2) show ?thesis by (auto simp: less_Suc_eq_0_disj)
  qed
qed

lemma spread_read:
  "read_prop (spread_prop old new) = (if new = Missing then read_prop old else read_prop new)"
  by (cases new) (simp_all add: spread_prop_def)




















section \<open>Claims\<close>

text \<open>
  C1, as amended. Every email whose lower-cased domain ends in a second-level and top-level
  label that together are a key of the typo table fails validation: \<open>validateEmail\<close> is
  false, \<open>validateForm\<close> records an email error and \<open>handleSubmit\<close> invokes no callback.
  When the whole lower-cased domain is that key, the error is the proposal
  \<open>Did you mean local@canonical?\<close> built from the original local part. The claim as stated
  fails for a domain with further labels in front, such as \<open>user@mail.gamil.com\<close>:
  \<open>validateEmail\<close> finds the key \<open>gamil.com\<close>, but \<open>validateForm\<close> looks the whole domain up
  and shows the general message; the counterexample follows the witness.
\<close>

theorem typo_domain_rejected_with_proposal:
  assumes "matched_typo email = Some canonical" and "fd_email fd = email"
  shows "validateEmail email = Inr False \<and>
         (\<exists>errs m. validateForm fd = Inr (errs, False) \<and> err_email errs = Some m \<and>
            (whole_domain_typo email = Some canonical \<longrightarrow>
               m = ''Did you mean '' @ local_part email @ ''@'' @ canonical @ ''?'')) \<and>
         handleSubmit editContact onEdit fd = Inr None"
proof -
  have v: "validateEmail email = Inr False" by (rule matched_typo_rejected[OF assms(1)])
  have "email \<noteq> []" using assms(1) by (auto simp: matched_typo_def email_domain_def)
  with v have f: "email_error (fd_email fd) = Inr (Some (email_message email))"
    using assms(2) by (simp add: email_error_def)
  show ?thesis
    using v validateForm_eq[OF f] handleSubmit_blocked[OF f] whole_domain_message[of email canonical]
    by simp
qed

theorem typo_domain_rejected_with_proposal_witness:
  "matched_typo ''user@gamil.com'' = Some ''gmail.com'' \<and>
   whole_domain_typo ''user@gamil.com'' = Some ''gmail.com'' \<and>
   validateEmail ''user@gamil.com'' = Inr False \<and>
   (\<exists>errs. validateForm \<lparr>fd_name = ''User'', fd_email = ''user@gamil.com'', fd_phone = [], fd_avatar = []\<rparr>
              = Inr (errs, False) \<and>
            err_email errs = Some ''Did you mean user@gmail.com?'') \<and>
   handleSubmit None False \<lparr>fd_name = ''User'', fd_email = ''user@gamil.com'', fd_phone = [], fd_avatar = []\<rparr>
     = Inr None"
proof -
  have m: "matched_typo ''user@gamil.com'' = Some ''gmail.com''" by code_simp
  have w: "whole_domain_typo ''user@gamil.com'' = Some ''gmail.com''" by code_simp
  have l: "local_part ''user@gamil.com'' = ''user''" by code_simp
  have e: "fd_email \<lparr>fd_name = ''User'', fd_email = ''user@gamil.com'', fd_phone = [], fd_avatar = []\<rparr>
             = ''user@gamil.com''" by simp
  show ?thesis
    using typo_domain_rejected_with_proposal[OF m e, of None False] m w l by auto
qed

theorem typo_proposal_counterexample:
  "matched_typo ''user@mail.gamil.com'' = Some ''gmail.com'' \<and>
   validateEmail ''user@mail.gamil.com'' = Inr False \<and>
   validateForm \<lparr>fd_name = ''User'', fd_email = ''user@mail.gamil.com'', fd_phone = [], fd_avatar = []\<rparr> =
     Inr (\<lparr>err_name = None, err_email = Some ''Please enter a valid email address'', err_phone = None\<rparr>, False)"
  by code_simp



text \<open>
  C3, as amended. A name that is blank after trimming fails validation with
  \<open>Name is required\<close>; a name whose length after trimming exceeds 100 fails with
  \<open>Name must be less than 100 characters\<close>; either way \<open>validateForm\<close> is false and
  \<open>handleSubmit\<close> invokes no callback. The length that counts is the trimmed one: a name of
  101 characters of which the first is a space passes, and 101 spaces get the first message;
  the counterexample follows the witness.
\<close>

theorem blank_or_long_name_rejected:
  assumes "blank (fd_name fd) \<or> 100 < length (trim (fd_name fd))"
  shows "(\<exists>errs. validateForm fd = Inr (errs, False) \<and>
            err_name errs = Some (if blank (fd_name fd) then ''Name is required''
                                  else ''Name must be less than 100 characters'')) \<and>
         handleSubmit editContact onEdit fd = Inr None"
proof (cases "blank (fd_name fd)")
  case True
  then show ?thesis using name_error_invalid[OF name_error_required] by simp
next
  case False
  with assms have "100 < length (trim (fd_name fd))" by simp
  then show ?thesis using False name_error_invalid[OF name_error_too_long] by simp
qed

theorem blank_or_long_name_rejected_witness:
  "(\<exists>errs. validateForm \<lparr>fd_name = ''   '', fd_email = [], fd_phone = [], fd_avatar = []\<rparr> = Inr (errs, False) \<and>
            err_name errs = Some ''Name is required'') \<and>
   handleSubmit None False \<lparr>fd_name = ''   '', fd_email = [], fd_phone = [], fd_avatar = []\<rparr> = Inr None \<and>
   (\<exists>errs. validateForm \<lparr>fd_name = replicate 101 CHR ''a'', fd_email = [], fd_phone = [], fd_avatar = []\<rparr>
              = Inr (errs, False) \<and>
            err_name errs = Some ''Name must be less than 100 characters'') \<and>
   handleSubmit None False \<lparr>fd_name = replicate 101 CHR ''a'', fd_email = [], fd_phone = [], fd_avatar = []\<rparr>
     = Inr None"
proof -
  have b: "blank ''   ''" by code_simp
  have nb: "\<not> blank (replicate 101 CHR ''a'')" by code_simp
  have l: "100 < length (trim (replicate 101 CHR ''a''))" by code_simp
  show ?thesis
    using blank_or_long_name_rejected[of "\<lparr>fd_name = ''   '', fd_email = [], fd_phone = [], fd_avatar = []\<rparr>" None False]
          blank_or_long_name_rejected[of "\<lparr>fd_name = replicate 101 CHR ''a'', fd_email = [], fd_phone = [], fd_avatar = []\<rparr>" None False]
          b nb l
    by simp
qed

theorem long_name_counterexample:
  "length (CHR '' '' # replicate 100 CHR ''a'') = 101 \<and>
   validateForm \<lparr>fd_name = CHR '' '' # replicate 100 CHR ''a'', fd_email = [], fd_phone = [], fd_avatar = []\<rparr>
     = Inr (\<lparr>err_name = None, err_email = None, err_phone = None\<rparr>, True) \<and>
   handleSubmit None False \<lparr>fd_name = CHR '' '' # replicate 100 CHR ''a'', fd_email = [], fd_phone = [], fd_avatar = []\<rparr>
     = Inr (Some (OnAdd \<lparr>f_name = replicate 100 CHR ''a'', f_email = Undefined, f_phone = Undefined,
                           f_avatar = Undefined\<rparr>)) \<and>
   length (replicate 101 CHR '' '') = 101 \<and>
   name_error (replicate 101 CHR '' '') = Some ''Name is required''"
  by code_simp

text \<open>
  C4, as amended. An empty phone passes. A non-empty phone passes when each of its characters
  is a digit, a white-space character, \<open>+\<close>, \<open>-\<close>, \<open>(\<close> or \<open>)\<close> and it has at least ten
  digits. A non-empty phone with another character, or with fewer than ten digits, fails:
  \<open>validateForm\<close> records \<open>Please enter a valid phone number\<close> (the one message for both
  failures) and is false, and \<open>handleSubmit\<close> invokes no callback. The claim as stated fails
  for a phone of spaces only, which is blank and is rejected, and for a tab among ten digits,
  which is accepted; the counterexample follows the witness.
\<close>

theorem phone_validation:
  "phone_error [] = None \<and>
   (p \<noteq> [] \<and> (\<forall>c \<in> set p. phone_char c) \<and> 10 \<le> digit_count p \<longrightarrow> phone_error p = None) \<and>
   (p \<noteq> [] \<and> ((\<exists>c \<in> set p. \<not> phone_char c) \<or> digit_count p < 10) \<and> fd_phone fd = p \<longrightarrow>
      phone_error p = Some ''Please enter a valid phone number'' \<and>
      (\<exists>errs. validateForm fd = Inr (errs, False) \<and>
              err_phone errs = Some ''Please enter a valid phone number'') \<and>
      handleSubmit editContact onEdit fd = Inr None)"
proof (intro conjI impI)
  show "phone_error [] = None" by (simp add: phone_error_iff)
next
  assume "p \<noteq> [] \<and> (\<forall>c \<in> set p. phone_char c) \<and> 10 \<le> digit_count p"
  then show "phone_error p = None" by (simp add: phone_error_iff)
next
  assume h: "p \<noteq> [] \<and> ((\<exists>c \<in> set p. \<not> phone_char c) \<or> digit_count p < 10) \<and> fd_phone fd = p"
  then have e: "phone_error (fd_phone fd) = Some ''Please enter a valid phone number''"
    by (auto simp: phone_error_iff)
  then show "phone_error p = Some ''Please enter a valid phone number''" using h by simp
  from phone_error_invalid[OF e]
  show "\<exists>errs. validateForm fd = Inr (errs, False) \<and>
              err_phone errs = Some ''Please enter a valid phone number''"
    and "handleSubmit editContact onEdit fd = Inr None" by simp_all
qed

theorem phone_validation_witness:
  "phone_error [] = None \<and>
   phone_error ''+1 (555) 123-4567'' = None \<and>
   phone_error ''555-CALL-NOW-1234'' = Some ''Please enter a valid phone number'' \<and>
   handleSubmit None False \<lparr>fd_name = ''Al'', fd_email = [], fd_phone = ''555-CALL-NOW-1234'', fd_avatar = []\<rparr>
     = Inr None \<and>
   phone_error ''555 1234'' = Some ''Please enter a valid phone number'' \<and>
   handleSubmit None False \<lparr>fd_name = ''Al'', fd_email = [], fd_phone = ''555 1234'', fd_avatar = []\<rparr>
     = Inr None"
proof -
  have a: "(\<forall>c \<in> set ''+1 (555) 123-4567''. phone_char c) \<and> 10 \<le> digit_count ''+1 (555) 123-4567''"
    by code_simp
  have b: "\<exists>c \<in> set ''555-CALL-NOW-1234''. \<not> phone_char c" by code_simp
  have c: "digit_count ''555 1234'' < 10" by code_simp
  show ?thesis
    using phone_validation[of "''+1 (555) 123-4567''" "\<lparr>fd_name = ''Al'', fd_email = [], fd_phone = [], fd_avatar = []\<rparr>" None False]
          phone_validation[of "''555-CALL-NOW-1234''" "\<lparr>fd_name = ''Al'', fd_email = [], fd_phone = ''555-CALL-NOW-1234'', fd_avatar = []\<rparr>" None False]
          phone_validation[of "''555 1234''" "\<lparr>fd_name = ''Al'', fd_email = [], fd_phone = ''555 1234'', fd_avatar = []\<rparr>" None False]
          a b c
    by simp
qed

theorem phone_counterexample:
  "blank ''   '' \<and>
   listed_phone_char CHR '' '' \<and>
   validatePhone ''   '' = False \<and>
   validateForm \<lparr>fd_name = ''Al'', fd_email = [], fd_phone = ''   '', fd_avatar = []\<rparr>
     = Inr (\<lparr>err_name = None, err_email = None, err_phone = Some ''Please enter a valid phone number''\<rparr>, False) \<and>
   \<not> listed_phone_char (CHR 0x09) \<and>
   validatePhone (''12345'' @ [CHR 0x09] @ ''67890'') = True \<and>
   phone_error ''12345678901a'' = phone_error ''123''"
  by code_simp

text \<open>
  C5, as amended. For an identifier that no record has, \<open>updateContact\<close> throws
  \<open>Contact not found\<close> and leaves the collection as it was. Otherwise it replaces the first
  record with that identifier, at its position, by the record it resolves with, and changes
  nothing else. That record has the same identifier and the given name; each optional field
  reads as the update gives it when the update object has the key (also with the value
  \<open>undefined\<close>, which clears the field), and as before when the key is missing. The claim as
  stated fails for an update object without a key: the record is merged, not replaced; the
  counterexample follows the witness.
\<close>

theorem update_not_found_or_merges:
  "(i \<notin> ids s \<longrightarrow> updateContact i updates s = (Inl (Error ''Contact not found''), s)) \<and>
   (i \<in> ids s \<longrightarrow>
      (\<exists>k new. k < length s \<and> c_id (s ! k) = i \<and> (\<forall>j < k. c_id (s ! j) \<noteq> i) \<and>
         updateContact i updates s = (Inr new, s[k := new]) \<and>
         c_id new = i \<and> c_name new = f_name updates \<and>
         read_prop (c_email new) =
           (if f_email updates = Missing then read_prop (c_email (s ! k)) else read_prop (f_email updates)) \<and>
         read_prop (c_phone new) =
           (if f_phone updates = Missing then read_prop (c_phone (s ! k)) else read_prop (f_phone updates)) \<and>
         read_prop (c_avatar new) =
           (if f_avatar updates = Missing then read_prop (c_avatar (s ! k)) else read_prop (f_avatar updates))))"
proof (intro conjI impI)
  assume "i \<notin> ids s"
  then have "findIndex (\<lambda>c. c_id c = i) s = None"
    by (auto simp: findIndex_None_iff ids_def)
  then show "updateContact i updates s = (Inl (Error ''Contact not found''), s)"
    by (simp add: updateContact_def)
next
  assume "i \<in> ids s"
  then have "findIndex (\<lambda>c. c_id c = i) s \<noteq> None"
    by (auto simp: findIndex_None_iff ids_def)
  then obtain k where k: "findIndex (\<lambda>c. c_id c = i) s = Some k" by blast
  note f = findIndex_Some[OF k]
  let ?new = "spread (s ! k) updates"
  have u: "updateContact i updates s = (Inr ?new, s[k := ?new])"
    using k f by (simp add: updateContact_def Let_def upd_conv_take_nth_drop)
  have "k < length s \<and> c_id (s ! k) = i \<and> (\<forall>j < k. c_id (s ! j) \<noteq> i) \<and>
         updateContact i updates s = (Inr ?new, s[k := ?new]) \<and>
         c_id ?new = i \<and> c_name ?new = f_name updates \<and>
         read_prop (c_email ?new) =
           (if f_email updates = Missing then read_prop (c_email (s ! k)) else read_prop (f_email updates)) \<and>
         read_prop (c_phone ?new) =
           (if f_phone updates = Missing then read_prop (c_phone (s ! k)) else read_prop (f_phone updates)) \<and>
         read_prop (c_avatar ?new) =
           (if f_avatar updates = Missing then read_prop (c_avatar (s ! k)) else read_prop (f_avatar updates))"
    using f u by (simp add: spread_def spread_read)
  then show "\<exists>k new. k < length s \<and> c_id (s ! k) = i \<and> (\<forall>j < k. c_id (s ! j) \<noteq> i) \<and>
         updateContact i updates s = (Inr new, s[k := new]) \<and>
         c_id new = i \<and> c_name new = f_name updates \<and>
         read_prop (c_email new) =
           (if f_email updates = Missing then read_prop (c_email (s ! k)) else read_prop (f_email updates)) \<and>
         read_prop (c_phone new) =
           (if f_phone updates = Missing then read_prop (c_phone (s ! k)) else read_prop (f_phone updates)) \<and>
         read_prop (c_avatar new) =
           (if f_avatar updates = Missing then read_prop (c_avatar (s ! k)) else read_prop (f_avatar updates))"
    by (intro exI)
qed

theorem update_not_found_or_merges_witness:
  "''11'' \<notin> ids mockContacts \<and>
   updateContact ''11'' \<lparr>f_name = ''Nobody'', f_email = Undefined, f_phone = Undefined, f_avatar = Undefined\<rparr>
     mockContacts = (Inl (Error ''Contact not found''), mockContacts) \<and>
   ''2'' \<in> ids mockContacts \<and>
   (\<exists>k new. k < length mockContacts \<and> c_id (mockContacts ! k) = ''2'' \<and>
      updateContact ''2'' \<lparr>f_name = ''M. Chen'', f_email = Undefined, f_phone = Str ''5550001111'',
                            f_avatar = Missing\<rparr> mockContacts
        = (Inr new, mockContacts[k := new]) \<and>
      c_id new = ''2'' \<and> c_name new = ''M. Chen'' \<and> read_prop (c_email new) = None \<and>
      read_prop (c_phone new) = Some ''5550001111'')"
proof -
  have a: "''11'' \<notin> ids mockContacts" by (simp add: ids_def mockContacts_def seed_def)
  have b: "''2'' \<in> ids mockContacts" by (simp add: ids_def mockContacts_def seed_def)
  have r: "read_prop Undefined = None" "read_prop (Str ''5550001111'') = Some ''5550001111''"
    by (simp_all add: read_prop_def)
  show ?thesis
    using update_not_found_or_merges[of "''11''" mockContacts
            "\<lparr>f_name = ''Nobody'', f_email = Undefined, f_phone = Undefined, f_avatar = Undefined\<rparr>"]
          update_not_found_or_merges[of "''2''" mockContacts
            "\<lparr>f_name = ''M. Chen'', f_email = Undefined, f_phone = Str ''5550001111'', f_avatar = Missing\<rparr>"]
          a b r
    by (simp only: ContactFields.select_convs jsprop.distinct if_False simp_thms) blast
qed

theorem update_partial_counterexample:
  "updateContact ''1'' \<lparr>f_name = ''Sarah J.'', f_email = Missing, f_phone = Missing, f_avatar = Missing\<rparr>
     [seed ''1'' ''Sarah Johnson'' ''sarah.johnson@example.com'' ''+1 (555) 123-4567'']
     = (Inr \<lparr>c_id = ''1'', c_name = ''Sarah J.'', c_email = Str ''sarah.johnson@example.com'',
              c_phone = Str ''+1 (555) 123-4567'', c_avatar = Missing\<rparr>,
        [\<lparr>c_id = ''1'', c_name = ''Sarah J.'', c_email = Str ''sarah.johnson@example.com'',
              c_phone = Str ''+1 (555) 123-4567'', c_avatar = Missing\<rparr>]) \<and>
   read_prop Missing = None \<and>
   read_prop (Str ''sarah.johnson@example.com'') = Some ''sarah.johnson@example.com''"
  by code_simp

text \<open>
  C6. \<open>deleteContact\<close> never throws. It leaves the collection without the records of the
  given identifier and with all others, in their order; no record of that identifier remains;
  when the identifier was absent the collection is unchanged; and a second \<open>deleteContact\<close>
  of the same identifier, run on the collection the first one left, leaves it as it is.
\<close>

theorem delete_removes_and_is_idempotent:
  "\<exists>s1. deleteContact i s = (Inr (), s1) \<and>
        s1 = filter (\<lambda>c. c_id c \<noteq> i) s \<and>
        i \<notin> ids s1 \<and>
        ids s1 = ids s - {i} \<and>
        (i \<notin> ids s \<longrightarrow> s1 = s) \<and>
        deleteContact i s1 = (Inr (), s1)"
proof -
  let ?s1 = "filter (\<lambda>c. c_id c \<noteq> i) s"
  have 1: "deleteContact i s = (Inr (), ?s1)" by (simp add: deleteContact_def)
  have 2: "i \<notin> ids ?s1" by (auto simp: ids_def)
  have 3: "ids ?s1 = ids s - {i}" by (auto simp: ids_def)
  have 4: "i \<notin> ids s \<longrightarrow> ?s1 = s"
  proof
    assume "i \<notin> ids s"
    then have "\<forall>c \<in> set s. c_id c \<noteq> i" by (auto simp: ids_def)
    then show "?s1 = s" by (simp add: filter_id_conv)
  qed
  have 5: "deleteContact i ?s1 = (Inr (), ?s1)" by (simp add: deleteContact_def)
  from 1 2 3 4 5 show ?thesis by blast
qed

theorem delete_removes_and_is_idempotent_witness:
  "deleteContact ''2'' [seed ''1'' ''A'' ''a@x.io'' ''1'', seed ''2'' ''B'' ''b@x.io'' ''2'']
     = (Inr (), [seed ''1'' ''A'' ''a@x.io'' ''1'']) \<and>
   deleteContact ''2'' [seed ''1'' ''A'' ''a@x.io'' ''1'']
     = (Inr (), [seed ''1'' ''A'' ''a@x.io'' ''1'']) \<and>
   ''2'' \<notin> ids [seed ''1'' ''A'' ''a@x.io'' ''1'']"
proof -
  have d: "filter (\<lambda>c. c_id c \<noteq> ''2'') [seed ''1'' ''A'' ''a@x.io'' ''1'', seed ''2'' ''B'' ''b@x.io'' ''2'']
             = [seed ''1'' ''A'' ''a@x.io'' ''1'']"
    by (simp add: seed_def)
  show ?thesis
    using delete_removes_and_is_idempotent[of "''2''" "[seed ''1'' ''A'' ''a@x.io'' ''1'', seed ''2'' ''B'' ''b@x.io'' ''2'']"]
    unfolding d by auto
qed









text \<open>
  C10, as amended. Whenever \<open>handleSubmit\<close> invokes a callback, the contact data it passes
  has the trimmed form name, which is not blank and at most 100 long; its email and its phone
  are each absent or a string that is neither blank nor padded; its avatar is the form's
  avatar string as it is, absent when that is empty. The avatar is not trimmed, so the claim
  as stated fails for an avatar of white space; the counterexample follows the witness.
\<close>

theorem committed_payload_clean:
  assumes "handleSubmit editContact onEdit fd = Inr (Some cb)"
  shows "f_name (payload cb) = trim (fd_name fd) \<and>
         \<not> blank (f_name (payload cb)) \<and> trimmed (f_name (payload cb)) \<and>
         length (f_name (payload cb)) \<le> 100 \<and>
         absent_or_clean (f_email (payload cb)) \<and>
         absent_or_clean (f_phone (payload cb)) \<and>
         f_avatar (payload cb) = or_undefined (fd_avatar fd) \<and>
         absent_or_nonempty (f_avatar (payload cb))"
proof -
  note c = handleSubmit_commits[OF assms]
  have n: "\<not> blank (fd_name fd) \<and> length (trim (fd_name fd)) \<le> 100"
    using c name_error_None by blast
  have e: "absent_or_clean (or_undefined (trim (fd_email fd)))"
    by (rule or_undefined_trim_clean)
  have p: "absent_or_clean (or_undefined (trim (fd_phone fd)))"
    by (rule or_undefined_trim_clean)
  have a: "absent_or_nonempty (or_undefined (fd_avatar fd))"
    by (simp add: absent_or_nonempty_def or_undefined_def)
  show ?thesis using c n e p a by (simp add: blank_trim trimmed_trim)
qed

theorem committed_payload_clean_witness:
  "handleSubmit None False
     \<lparr>fd_name = '' Al '', fd_email = ''al@example.com'', fd_phone = '' +1 (555) 123-4567 '', fd_avatar = []\<rparr>
     = Inr (Some (OnAdd \<lparr>f_name = ''Al'', f_email = Str ''al@example.com'',
                          f_phone = Str ''+1 (555) 123-4567'', f_avatar = Undefined\<rparr>)) \<and>
   \<not> blank ''Al'' \<and> trimmed ''Al'' \<and>
   absent_or_clean (Str ''al@example.com'') \<and> absent_or_clean (Str ''+1 (555) 123-4567'') \<and>
   absent_or_nonempty Undefined"
proof -
  have h: "handleSubmit None False
     \<lparr>fd_name = '' Al '', fd_email = ''al@example.com'', fd_phone = '' +1 (555) 123-4567 '', fd_avatar = []\<rparr>
     = Inr (Some (OnAdd \<lparr>f_name = ''Al'', f_email = Str ''al@example.com'',
                          f_phone = Str ''+1 (555) 123-4567'', f_avatar = Undefined\<rparr>))"
    by code_simp
  show ?thesis using committed_payload_clean[OF h] h
    by (simp (no_asm_use) only: payload.simps ContactFields.select_convs) blast
qed

theorem blank_avatar_counterexample:
  "handleSubmit None False \<lparr>fd_name = ''Al'', fd_email = [], fd_phone = [], fd_avatar = '' ''\<rparr>
     = Inr (Some (OnAdd \<lparr>f_name = ''Al'', f_email = Undefined, f_phone = Undefined,
                          f_avatar = Str '' ''\<rparr>)) \<and>
   blank '' '' \<and> \<not> absent_or_clean (Str '' '')"
  by code_simp

end
